theory Spec2Isabelle
  imports Complex_Main
begin

section \<open>Python values shared by the model\<close>

text \<open>
  The exceptions that the modelled functions raise. A function that can raise returns
  \<open>error + 'x\<close>, with \<open>Inl\<close> for the exception. \<open>AssertionError\<close> carries the message of
  the \<^verbatim>\<open>assert\<close> statement.
\<close>

datatype error =
    AssertionError string
  | NotImplementedError
  | TypeError
  | IndexError
  | RuntimeError

definition bnd :: "error + 'x \<Rightarrow> ('x \<Rightarrow> error + 'y) \<Rightarrow> error + 'y" where
  "bnd m f = (case m of Inl e \<Rightarrow> Inl e | Inr v \<Rightarrow> f v)"

text \<open>Running a fallible function over a list, left to right, stopping at the first exception.\<close>

fun map_result :: "('x \<Rightarrow> error + 'y) \<Rightarrow> 'x list \<Rightarrow> error + 'y list" where
  "map_result f [] = Inr []"
| "map_result f (x # xs) =
     (case f x of
        Inl e \<Rightarrow> Inl e
      | Inr y \<Rightarrow> (case map_result f xs of Inl e \<Rightarrow> Inl e | Inr ys \<Rightarrow> Inr (y # ys)))"

text \<open>\<^verbatim>\<open>str.startswith\<close>.\<close>

definition startswith :: "string \<Rightarrow> string \<Rightarrow> bool" where
  "startswith s p = (take (length p) s = p)"

section \<open>Tensors\<close>

text \<open>
  A torch tensor is its shape and its elements in row-major order (a contiguous tensor).
  It is well formed when it has as many elements as its shape says.
\<close>

record 'a tensor =
  shape :: "nat list"
  data :: "'a list"

definition numel :: "'a tensor \<Rightarrow> nat" where
  "numel t = prod_list (shape t)"

definition wf_tensor :: "'a tensor \<Rightarrow> bool" where
  "wf_tensor t = (length (data t) = prod_list (shape t))"

definition zeros :: "nat list \<Rightarrow> ('a::zero) tensor" where
  "zeros shp = \<lparr>shape = shp, data = replicate (prod_list shp) 0\<rparr>"

definition eye :: "nat \<Rightarrow> ('a::{zero,one}) tensor" where
  "eye n = \<lparr>shape = [n, n],
            data = concat (map (\<lambda>i. map (\<lambda>j. if i = j then 1 else 0) [0..<n]) [0..<n])\<rparr>"

text \<open>\<^verbatim>\<open>t.reshape(-1)\<close>: the same elements as a vector.\<close>

definition flatten :: "'a tensor \<Rightarrow> 'a tensor" where
  "flatten t = \<lparr>shape = [length (data t)], data = data t\<rparr>"

text \<open>\<^verbatim>\<open>t.reshape(shp)\<close> raises when the number of elements differs.\<close>

definition reshape :: "'a tensor \<Rightarrow> nat list \<Rightarrow> error + 'a tensor" where
  "reshape t shp =
     (if prod_list shp = length (data t) then Inr \<lparr>shape = shp, data = data t\<rparr>
      else Inl RuntimeError)"

text \<open>\<^verbatim>\<open>torch.cat([u, v])\<close> of two vectors.\<close>

definition cat_vectors :: "'a tensor \<Rightarrow> 'a tensor \<Rightarrow> 'a tensor" where
  "cat_vectors u v = \<lparr>shape = [length (data u) + length (data v)], data = data u @ data v\<rparr>"

text \<open>
  \<^verbatim>\<open>torch.split(z, 1, 0)\<close>: one chunk of leading dimension 1 per row; a tensor with no row
  gives one chunk, itself; a 0-dimensional tensor cannot be split.
\<close>

definition split_rows :: "'a tensor \<Rightarrow> error + 'a tensor list" where
  "split_rows z =
     (case shape z of
        [] \<Rightarrow> Inl RuntimeError
      | n # rest \<Rightarrow>
          if n = 0 then Inr [z]
          else Inr (map (\<lambda>i. \<lparr>shape = 1 # rest,
                                data = take (prod_list rest) (drop (i * prod_list rest) (data z))\<rparr>)
                        [0..<n]))"

text \<open>\<^verbatim>\<open>t.squeeze()\<close> removes every dimension of size 1.\<close>

definition squeeze :: "'a tensor \<Rightarrow> 'a tensor" where
  "squeeze t = \<lparr>shape = filter (\<lambda>d. d \<noteq> 1) (shape t), data = data t\<rparr>"

text \<open>
  \<^verbatim>\<open>t[:k]\<close> and \<^verbatim>\<open>t[-k:]\<close> slice the leading dimension; a 0-dimensional tensor cannot be
  indexed. Python reads \<^verbatim>\<open>t[-0:]\<close> as \<^verbatim>\<open>t[0:]\<close>, the whole tensor, and clamps a start
  before the beginning to the beginning.
\<close>

definition slice_to :: "nat \<Rightarrow> 'a tensor \<Rightarrow> error + 'a tensor" where
  "slice_to k t =
     (case shape t of
        [] \<Rightarrow> Inl IndexError
      | d # rest \<Rightarrow>
          Inr \<lparr>shape = min k d # rest, data = take (min k d * prod_list rest) (data t)\<rparr>)"

definition slice_last :: "nat \<Rightarrow> 'a tensor \<Rightarrow> error + 'a tensor" where
  "slice_last k t =
     (case shape t of
        [] \<Rightarrow> Inl IndexError
      | d # rest \<Rightarrow>
          (let start = (if k = 0 \<or> d \<le> k then 0 else d - k) in
           Inr \<lparr>shape = (d - start) # rest, data = drop (start * prod_list rest) (data t)\<rparr>))"

text \<open>
  \<^verbatim>\<open>F.conv2d(input, weight, bias)\<close> for the kernels of size 1x1 that the classifier has:
  \<open>input\<close> is \<open>[N, C, H, W]\<close>, \<open>weight\<close> is \<open>[K, C, 1, 1]\<close>, \<open>bias\<close> is \<open>[K]\<close>, and the output
  \<open>[N, K, H, W]\<close> holds at \<open>(n, k, h, w)\<close> the value
  \<open>bias[k] + \<Sum>c. weight[k, c] * input[n, c, h, w]\<close>. Other shapes raise.
\<close>

definition conv2d_pixel :: "('a::semiring_0) tensor \<Rightarrow> 'a tensor \<Rightarrow> 'a tensor \<Rightarrow>
    nat \<Rightarrow> nat \<Rightarrow> nat \<Rightarrow> nat \<Rightarrow> nat \<Rightarrow> nat \<Rightarrow> nat \<Rightarrow> 'a" where
  "conv2d_pixel input weight bias C H W n k h w =
     data bias ! k +
     sum_list (map (\<lambda>c. data weight ! (k * C + c) * data input ! (((n * C + c) * H + h) * W + w))
                   [0..<C])"

definition conv2d_out :: "('a::semiring_0) tensor \<Rightarrow> 'a tensor \<Rightarrow> 'a tensor \<Rightarrow> 'a tensor" where
  "conv2d_out input weight bias =
     (let N = shape input ! 0; C = shape input ! 1; H = shape input ! 2; W = shape input ! 3;
          K = shape weight ! 0
      in \<lparr>shape = [N, K, H, W],
           data = concat (map (\<lambda>n. concat (map (\<lambda>k. concat (map (\<lambda>h.
                    map (\<lambda>w. conv2d_pixel input weight bias C H W n k h w) [0..<W])
                    [0..<H])) [0..<K])) [0..<N])\<rparr>)"

definition conv2d :: "('a::semiring_0) tensor \<Rightarrow> 'a tensor \<Rightarrow> 'a tensor \<Rightarrow> error + 'a tensor" where
  "conv2d input weight bias =
     (if length (shape input) = 4 \<and> length (shape weight) = 4 \<and> length (shape bias) = 1
         \<and> shape weight ! 1 = shape input ! 1 \<and> shape weight ! 2 = 1 \<and> shape weight ! 3 = 1
         \<and> shape bias ! 0 = shape weight ! 0
      then Inr (conv2d_out input weight bias)
      else Inl RuntimeError)"

text \<open>
  \<^verbatim>\<open>torch.cat(ts, dim=0)\<close>: the tensors agree on every dimension but the first; an empty
  list raises.
\<close>

definition cat0 :: "'a tensor list \<Rightarrow> error + 'a tensor" where
  "cat0 ts =
     (case ts of
        [] \<Rightarrow> Inl RuntimeError
      | t # rest \<Rightarrow>
          if shape t \<noteq> [] \<and> list_all (\<lambda>u. shape u \<noteq> [] \<and> tl (shape u) = tl (shape t)) rest
          then Inr \<lparr>shape = sum_list (map (\<lambda>u. hd (shape u)) ts) # tl (shape t),
                    data = concat (map data ts)\<rparr>
          else Inl RuntimeError)"

section \<open>NormalizingFlowDensity\<close>

text \<open>
  The transforms are pyro modules (\<^verbatim>\<open>Planar\<close>, \<^verbatim>\<open>Radial\<close>, \<^verbatim>\<open>affine_autoregressive\<close>): a
  transform is the two functions that the flow calls on it. Their log-determinants, the
  values of the base density and the losses are torch tensors that are only ever added:
  they are values of a type \<open>'s\<close> with \<open>+\<close> and \<open>0\<close>, about which nothing more is assumed.
\<close>

record ('a, 's) transform =
  transform_call :: "'a tensor \<Rightarrow> 'a tensor"
  log_abs_det_jacobian :: "'a tensor \<Rightarrow> 'a tensor \<Rightarrow> 's"

text \<open>
  \<open>mean\<close> is the attribute that \<^verbatim>\<open>update_z0_params\<close> of the decode head assigns from
  outside; \<^verbatim>\<open>__init__\<close> does not create it.
\<close>

record ('a, 's) nf_density =
  dim :: nat
  flow_length :: nat
  flow_type :: string
  z0_mean :: "'a tensor"
  z0_cov :: "'a tensor"
  transforms :: "('a, 's) transform list"
  mean :: "'a tensor option"

text \<open>
  \<^verbatim>\<open>__init__\<close>: \<open>mk kind dim i\<close> is the \<open>i\<close>-th freshly built transform of the kind.
\<close>

definition NormalizingFlowDensity_init ::
    "(string \<Rightarrow> nat \<Rightarrow> nat \<Rightarrow> ('a::{zero,one}, 's) transform) \<Rightarrow> nat \<Rightarrow> nat \<Rightarrow> string
      \<Rightarrow> error + ('a, 's) nf_density" where
  "NormalizingFlowDensity_init mk d len kind =
     (if kind = ''radial_flow'' \<or> kind = ''planar_flow'' \<or> kind = ''iaf_flow''
      then Inr \<lparr>dim = d, flow_length = len, flow_type = kind,
                z0_mean = zeros [d], z0_cov = eye d,
                transforms = map (mk kind d) [0..<len], mean = None\<rparr>
      else Inl NotImplementedError)"

fun forward_loop :: "('a, 's::plus) transform list \<Rightarrow> 'a tensor \<Rightarrow> 's \<Rightarrow> 'a tensor \<times> 's" where
  "forward_loop [] z sum_log_jacobians = (z, sum_log_jacobians)"
| "forward_loop (t # ts) z sum_log_jacobians =
     (let z_next = transform_call t z
      in forward_loop ts z_next (sum_log_jacobians + log_abs_det_jacobian t z z_next))"

definition nf_forward :: "('a, 's::{plus,zero}) nf_density \<Rightarrow> 'a tensor \<Rightarrow> 'a tensor \<times> 's" where
  "nf_forward d z = forward_loop (transforms d) z 0"

text \<open>
  \<^verbatim>\<open>torch.distributions.MultivariateNormal(loc, covariance_matrix)\<close> and the two methods
  of it that the density calls.
\<close>

record 'a MultivariateNormal =
  loc :: "'a tensor"
  covariance_matrix :: "'a tensor"

record ('a, 's) tdist =
  mvn_log_prob :: "'a MultivariateNormal \<Rightarrow> 'a tensor \<Rightarrow> 's"
  mvn_sample :: "'a MultivariateNormal \<Rightarrow> nat list \<Rightarrow> 'a tensor"

definition nf_log_prob ::
    "('a, 's::{plus,zero}) tdist \<Rightarrow> ('a, 's) nf_density \<Rightarrow> 'a tensor \<Rightarrow> 's" where
  "nf_log_prob td d x =
     (case nf_forward d x of
        (z, sum_log_jacobians) \<Rightarrow>
          (let log_prob_z = mvn_log_prob td \<lparr>loc = z0_mean d, covariance_matrix = z0_cov d\<rparr> z
           in log_prob_z + sum_log_jacobians))"

definition sample_base :: "('a, 's) tdist \<Rightarrow> ('a, 's) nf_density \<Rightarrow> nat \<Rightarrow> 'a tensor" where
  "sample_base td d n = mvn_sample td \<lparr>loc = z0_mean d, covariance_matrix = z0_cov d\<rparr> [n]"

section \<open>The flow-based decode head\<close>

text \<open>
  A loss module of the configuration: its name, its call
  \<^verbatim>\<open>loss_decode(seg_logit, seg_label, weight=..., ignore_index=...)\<close> (the weight is
  \<open>None\<close> when the call does not pass one) and the \<^verbatim>\<open>get_logs\<close> of the evidential losses.
  \<open>loss_decode\<close> of the head is one module or an \<^verbatim>\<open>nn.ModuleList\<close>.
\<close>

record ('a, 's) loss_module =
  loss_name :: string
  loss_call :: "'a tensor \<Rightarrow> 'a tensor \<Rightarrow> 'a tensor option \<Rightarrow> nat option \<Rightarrow> 's"
  get_logs :: "'a tensor \<Rightarrow> 'a tensor \<Rightarrow> nat option \<Rightarrow> (string \<rightharpoonup> 's)"

datatype ('a, 's) loss_decode_cfg =
    SingleLoss "('a, 's) loss_module"
  | ModuleList "('a, 's) loss_module list"

text \<open>
  The attributes of \<^verbatim>\<open>NfBllBaseDecodeHead\<close> that its methods below read. \<open>sampler\<close> is
  the \<^verbatim>\<open>sample\<close> method of the pixel sampler, \<open>dropout\<close> the dropout layer.
\<close>

record ('a, 's) decode_head =
  channels :: nat
  num_classes :: nat
  ignore_index :: "nat option"
  align_corners :: bool
  loss_decode :: "('a, 's) loss_decode_cfg"
  sampler :: "('a tensor \<Rightarrow> 'a tensor \<Rightarrow> 'a tensor) option"
  conv_seg_weight :: "'a tensor"
  conv_seg_bias :: "'a tensor"
  dropout :: "('a tensor \<Rightarrow> 'a tensor) option"
  latent_dim :: nat
  nsamples_train :: nat
  nsamples_test :: nat
  density_estimation :: "('a, 's) nf_density"
  w_shape :: "nat list"
  b_shape :: "nat list"
  w_numel :: nat
  b_numel :: nat
  initial_p :: "'a tensor"

text \<open>
  \<^verbatim>\<open>__init__\<close>. \<open>loss_decode\<close> is a dict, a list or tuple of dicts, or anything else
  (\<^verbatim>\<open>TypeError\<close>); \<open>build_loss\<close> and \<open>build_pixel_sampler\<close> are the registries' builders;
  \<open>init_weight\<close> and \<open>init_bias\<close> give the initial parameters of \<^verbatim>\<open>conv_seg\<close>, a
  convolution with kernels of size 1x1. The checks of \<^verbatim>\<open>_init_inputs\<close> on the input
  transform are not part of the model.
\<close>

datatype 'c loss_decode_arg = DictCfg 'c | SeqCfg "'c list" | OtherCfg

definition NfBllBaseDecodeHead_init ::
    "(string \<Rightarrow> nat \<Rightarrow> nat \<Rightarrow> ('a::{zero,one}, 's) transform) \<Rightarrow> ('c \<Rightarrow> ('a, 's) loss_module)
      \<Rightarrow> ('p \<Rightarrow> 'a tensor \<Rightarrow> 'a tensor \<Rightarrow> 'a tensor) \<Rightarrow> (nat \<Rightarrow> 'a) \<Rightarrow> (nat \<Rightarrow> 'a)
      \<Rightarrow> nat \<Rightarrow> nat \<Rightarrow> real \<Rightarrow> ('a tensor \<Rightarrow> 'a tensor) \<Rightarrow> nat option \<Rightarrow> bool
      \<Rightarrow> 'c loss_decode_arg \<Rightarrow> 'p option \<Rightarrow> string \<Rightarrow> nat \<Rightarrow> nat
      \<Rightarrow> error + ('a, 's) decode_head" where
  "NfBllBaseDecodeHead_init mk build_loss build_pixel_sampler init_weight init_bias
       chans ncls dropout_ratio dropout2d ign ac loss_arg sampler_arg kind len ntrain =
     (case (case loss_arg of
              DictCfg c \<Rightarrow> Inr (SingleLoss (build_loss c))
            | SeqCfg cs \<Rightarrow> Inr (ModuleList (map build_loss cs))
            | OtherCfg \<Rightarrow> Inl TypeError) of
        Inl e \<Rightarrow> Inl e
      | Inr ld \<Rightarrow>
          (let weight = \<lparr>shape = [ncls, chans, 1, 1], data = map init_weight [0..<ncls * chans]\<rparr>;
               bias = \<lparr>shape = [ncls], data = map init_bias [0..<ncls]\<rparr>;
               latent = numel weight + numel bias
           in if kind = ''iaf_flow'' \<or> kind = ''planar_flow'' \<or> kind = ''radial_flow''
              then (case NormalizingFlowDensity_init mk latent len kind of
                      Inl e \<Rightarrow> Inl e
                    | Inr de \<Rightarrow>
                        Inr \<lparr>channels = chans, num_classes = ncls, ignore_index = ign,
                             align_corners = ac, loss_decode = ld,
                             sampler = map_option build_pixel_sampler sampler_arg,
                             conv_seg_weight = weight, conv_seg_bias = bias,
                             dropout = (if dropout_ratio > 0 then Some dropout2d else None),
                             latent_dim = latent, nsamples_train = ntrain, nsamples_test = 1,
                             density_estimation = de,
                             w_shape = shape weight, b_shape = shape bias,
                             w_numel = numel weight, b_numel = numel bias,
                             initial_p = cat_vectors (flatten weight) (flatten bias)\<rparr>)
              else Inl NotImplementedError))"

definition update_z0_params :: "('a, 's) decode_head \<Rightarrow> ('a, 's) decode_head" where
  "update_z0_params h =
     (let p = cat_vectors (flatten (conv_seg_weight h)) (flatten (conv_seg_bias h));
          h1 = h\<lparr>initial_p := p\<rparr>
      in h1\<lparr>density_estimation := (density_estimation h1)\<lparr>mean := Some (initial_p h1)\<rparr>\<rparr>)"

text \<open>
  The body of the loop of \<^verbatim>\<open>conv_seg_forward\<close> for one chunk of \<open>z\<close>, and the method.
  \<open>conv_seg_call\<close> is the ordinary classification \<^verbatim>\<open>self.conv_seg(x)\<close> with the
  parameters that the layer holds.
\<close>

definition sample_logits ::
    "('a::semiring_0, 's) decode_head \<Rightarrow> 'a tensor \<Rightarrow> 'a tensor \<Rightarrow> error + 'a tensor" where
  "sample_logits h x z_chunk =
     (let zs = squeeze z_chunk
      in bnd (slice_to (w_numel h) zs) (\<lambda>zw.
         bnd (reshape zw (w_shape h)) (\<lambda>weight.
         bnd (slice_last (b_numel h) zs) (\<lambda>zb.
         bnd (reshape zb (b_shape h)) (\<lambda>bias.
         conv2d x weight bias)))))"

definition conv_seg_forward ::
    "('a::semiring_0, 's) decode_head \<Rightarrow> 'a tensor \<Rightarrow> 'a tensor \<Rightarrow> error + 'a tensor" where
  "conv_seg_forward h x z =
     bnd (split_rows z) (\<lambda>z_list.
     bnd (map_result (sample_logits h x) z_list) cat0)"

definition conv_seg_call ::
    "('a::semiring_0, 's) decode_head \<Rightarrow> 'a tensor \<Rightarrow> error + 'a tensor" where
  "conv_seg_call h x = conv2d x (conv_seg_weight h) (conv_seg_bias h)"

definition cls_seg ::
    "('a::semiring_0, 's) decode_head \<Rightarrow> 'a tensor \<Rightarrow> 'a tensor \<Rightarrow> error + 'a tensor" where
  "cls_seg h feat z =
     (let feat = (case dropout h of Some drop_layer \<Rightarrow> drop_layer feat | None \<Rightarrow> feat)
      in conv_seg_forward h feat z)"

text \<open>
  The functions of torch and mmseg that \<^verbatim>\<open>losses\<close> calls: \<^verbatim>\<open>resize(input, size,
  mode='bilinear', align_corners)\<close>, \<^verbatim>\<open>accuracy(logit, label, ignore_index)\<close>,
  \<^verbatim>\<open>t.mean()\<close> and \<^verbatim>\<open>t.numel()\<close> of the log-determinants, and
  \<^verbatim>\<open>label.squeeze(1).repeat(n, 1, 1)\<close>. \<^verbatim>\<open>detach()\<close> keeps the value.
\<close>

record ('a, 's) externals =
  resize :: "'a tensor \<Rightarrow> nat list \<Rightarrow> bool \<Rightarrow> 'a tensor"
  accuracy :: "'a tensor \<Rightarrow> 'a tensor \<Rightarrow> nat option \<Rightarrow> 's"
  tensor_mean :: "'s \<Rightarrow> 's"
  tensor_numel :: "'s \<Rightarrow> nat"
  squeeze_repeat :: "'a tensor \<Rightarrow> nat \<Rightarrow> 'a tensor"

text \<open>
  The loop of \<^verbatim>\<open>losses\<close> over the loss modules. \<open>loss\<close> is the dictionary built so far,
  \<open>m\<close> the value of \<^verbatim>\<open>sum_log_jacobians.mean()\<close>. A name that is not yet a key takes the
  first branch, which calls the loss without a weight; a name that is a key takes the
  second, which calls it with the sampler's weight.
\<close>

fun losses_loop ::
    "'a tensor \<Rightarrow> 'a tensor \<Rightarrow> 'a tensor option \<Rightarrow> nat option \<Rightarrow> 's
      \<Rightarrow> ('a, 's::plus) loss_module list \<Rightarrow> (string \<rightharpoonup> 's) \<Rightarrow> error + (string \<rightharpoonup> 's)" where
  "losses_loop seg_logit seg_label seg_weight ign m [] loss = Inr loss"
| "losses_loop seg_logit seg_label seg_weight ign m (ld # lds) loss =
     (case loss (loss_name ld) of
        None \<Rightarrow>
          (let loss1 = loss(loss_name ld \<mapsto> loss_call ld seg_logit seg_label None ign + m)
           in if startswith (loss_name ld) ''loss_edl''
              then (let logs = (get_logs ld seg_logit seg_label ign)(''mean_jacobian_logdet'' \<mapsto> m)
                    in losses_loop seg_logit seg_label seg_weight ign m lds (loss1 ++ logs))
              else losses_loop seg_logit seg_label seg_weight ign m lds loss1)
      | Some v \<Rightarrow>
          (let loss1 = loss(loss_name ld \<mapsto> v + loss_call ld seg_logit seg_label seg_weight ign)
           in if startswith (loss_name ld) ''loss_edl''
              then Inl NotImplementedError
              else losses_loop seg_logit seg_label seg_weight ign m lds loss1))"

definition losses ::
    "('a, 's::plus) externals \<Rightarrow> ('a, 's) decode_head \<Rightarrow> 'a tensor \<Rightarrow> 'a tensor \<Rightarrow> 's
      \<Rightarrow> error + (string \<rightharpoonup> 's)" where
  "losses ext h seg_logit0 seg_label0 sum_log_jacobians =
     (let seg_logit = resize ext seg_logit0 (drop 2 (shape seg_label0)) (align_corners h);
          seg_weight = (case sampler h of
                          Some sample \<Rightarrow> Some (sample seg_logit seg_label0)
                        | None \<Rightarrow> None);
          seg_label = squeeze_repeat ext seg_label0 (tensor_numel ext sum_log_jacobians);
          losses_decode = (case loss_decode h of SingleLoss l \<Rightarrow> [l] | ModuleList ls \<Rightarrow> ls);
          loss = [''acc_seg'' \<mapsto> accuracy ext seg_logit seg_label (ignore_index h)]
      in losses_loop seg_logit seg_label seg_weight (ignore_index h)
           (tensor_mean ext sum_log_jacobians) losses_decode loss)"

text \<open>
  \<^verbatim>\<open>forward\<close> is abstract: \<open>fwd h inputs n\<close> is the subclass's method, where \<open>n\<close> is the
  sample count that the call passes, \<open>None\<close> when it passes none; as \<^verbatim>\<open>forward_train\<close>
  unpacks it, it returns the logits and the log-determinants.
\<close>

definition forward_train ::
    "(('a, 's::plus) decode_head \<Rightarrow> 'i \<Rightarrow> nat option \<Rightarrow> error + 'a tensor \<times> 's)
      \<Rightarrow> ('a, 's) externals \<Rightarrow> ('a, 's) decode_head \<Rightarrow> 'i \<Rightarrow> 'a tensor
      \<Rightarrow> error + (string \<rightharpoonup> 's)" where
  "forward_train fwd ext h inputs gt_semantic_seg =
     bnd (fwd h inputs (Some (nsamples_train h))) (\<lambda>(seg_logits, sum_log_jacobians).
       losses ext h seg_logits gt_semantic_seg sum_log_jacobians)"

definition forward_test ::
    "(('a, 's) decode_head \<Rightarrow> 'i \<Rightarrow> nat option \<Rightarrow> error + 'a tensor \<times> 's)
      \<Rightarrow> ('a, 's) decode_head \<Rightarrow> 'i \<Rightarrow> error + 'a tensor \<times> 's" where
  "forward_test fwd h inputs = fwd h inputs None"

subsection \<open>The change of variables, as the specification words it\<close>

text \<open>
  The vector after every transform of the chain, and the log-determinant of every
  transform at the vector it is applied to.
\<close>

fun chain_final :: "('a, 's) transform list \<Rightarrow> 'a tensor \<Rightarrow> 'a tensor" where
  "chain_final [] z = z"
| "chain_final (t # ts) z = chain_final ts (transform_call t z)"

fun chain_log_jacobians :: "('a, 's) transform list \<Rightarrow> 'a tensor \<Rightarrow> 's list" where
  "chain_log_jacobians [] z = []"
| "chain_log_jacobians (t # ts) z =
     log_abs_det_jacobian t z (transform_call t z) # chain_log_jacobians ts (transform_call t z)"

subsection \<open>The sampled classifiers, as the specification words them\<close>

text \<open>
  Row \<open>i\<close> of the matrix \<open>z\<close> of sampled parameter vectors, and the weight and the bias
  of the classifier that it holds: the first \<open>w_numel\<close> entries and the ones after them.
  \<open>conv_seg_shapes\<close> says that the head records the shapes and sizes of a convolution
  with \<open>num_classes\<close> kernels of size 1x1 over \<open>channels\<close> channels, as \<^verbatim>\<open>__init__\<close>
  sets them.
\<close>

definition z_row :: "'a tensor \<Rightarrow> nat \<Rightarrow> 'a list" where
  "z_row z i = take (shape z ! 1) (drop (i * (shape z ! 1)) (data z))"

definition sampled_weight :: "('a, 's) decode_head \<Rightarrow> 'a tensor \<Rightarrow> nat \<Rightarrow> 'a tensor" where
  "sampled_weight h z i = \<lparr>shape = w_shape h, data = take (w_numel h) (z_row z i)\<rparr>"

definition sampled_bias :: "('a, 's) decode_head \<Rightarrow> 'a tensor \<Rightarrow> nat \<Rightarrow> 'a tensor" where
  "sampled_bias h z i = \<lparr>shape = b_shape h, data = drop (w_numel h) (z_row z i)\<rparr>"

definition conv_seg_shapes :: "('a, 's) decode_head \<Rightarrow> bool" where
  "conv_seg_shapes h =
     (w_shape h = [num_classes h, channels h, 1, 1] \<and> b_shape h = [num_classes h]
      \<and> w_numel h = num_classes h * channels h \<and> b_numel h = num_classes h)"

subsection \<open>The values that \<^verbatim>\<open>losses\<close> works with\<close>

text \<open>
  Names for what \<^verbatim>\<open>losses\<close> computes before its loop: the resized logits, the weight
  that the sampler gives (if there is a sampler), and the repeated label.
\<close>

definition resized_logit :: "('a, 's) externals \<Rightarrow> ('a, 's) decode_head \<Rightarrow> 'a tensor \<Rightarrow> 'a tensor
    \<Rightarrow> 'a tensor" where
  "resized_logit ext h seg_logit seg_label =
     resize ext seg_logit (drop 2 (shape seg_label)) (align_corners h)"

definition sampled_seg_weight :: "('a, 's) externals \<Rightarrow> ('a, 's) decode_head \<Rightarrow> 'a tensor
    \<Rightarrow> 'a tensor \<Rightarrow> 'a tensor option" where
  "sampled_seg_weight ext h seg_logit seg_label =
     (case sampler h of
        Some sample \<Rightarrow> Some (sample (resized_logit ext h seg_logit seg_label) seg_label)
      | None \<Rightarrow> None)"

definition repeated_label :: "('a, 's) externals \<Rightarrow> 'a tensor \<Rightarrow> 's \<Rightarrow> 'a tensor" where
  "repeated_label ext seg_label sum_log_jacobians =
     squeeze_repeat ext seg_label (tensor_numel ext sum_log_jacobians)"

text \<open>
  The dictionary after a loss whose name appears for the first time, as the specification
  words it: the entry of the name is the loss plus the mean Jacobian term, and an
  evidential loss (a name that starts with \<^verbatim>\<open>loss_edl\<close>) additionally merges its logs and
  logs the term under \<^verbatim>\<open>mean_jacobian_logdet\<close>.
\<close>

definition first_appearance ::
    "('a, 's::plus) loss_module \<Rightarrow> 'a tensor \<Rightarrow> 'a tensor \<Rightarrow> nat option \<Rightarrow> 's
      \<Rightarrow> (string \<rightharpoonup> 's) \<Rightarrow> (string \<rightharpoonup> 's)" where
  "first_appearance ld seg_logit seg_label ign m lp =
     (if startswith (loss_name ld) ''loss_edl''
      then lp(loss_name ld \<mapsto> loss_call ld seg_logit seg_label None ign + m)
           ++ (get_logs ld seg_logit seg_label ign)(''mean_jacobian_logdet'' \<mapsto> m)
      else lp(loss_name ld \<mapsto> loss_call ld seg_logit seg_label None ign + m))"

subsection \<open>A small head, for the concrete cases\<close>

text \<open>
  A head with two classes over one channel and an empty chain; a cross-entropy loss and
  an evidential loss that give 10 without a weight and 20 with one; a sampler; and the
  head after a checkpoint has put other parameters into \<^verbatim>\<open>conv_seg\<close>.
\<close>

definition example_loss :: "(int, int) loss_module" where
  "example_loss =
     \<lparr>loss_name = ''loss_ce'',
      loss_call = (\<lambda>seg_logit seg_label weight ign. case weight of None \<Rightarrow> 10 | Some _ \<Rightarrow> 20),
      get_logs = (\<lambda>seg_logit seg_label ign. Map.empty)\<rparr>"

definition example_edl_loss :: "(int, int) loss_module" where
  "example_edl_loss =
     \<lparr>loss_name = ''loss_edl'',
      loss_call = (\<lambda>seg_logit seg_label weight ign. case weight of None \<Rightarrow> 10 | Some _ \<Rightarrow> 20),
      get_logs = (\<lambda>seg_logit seg_label ign. [''mean_ev_sum'' \<mapsto> 7])\<rparr>"

definition example_sampler :: "int tensor \<Rightarrow> int tensor \<Rightarrow> int tensor" where
  "example_sampler seg_logit seg_label = seg_label"

definition example_density :: "(int, int) nf_density" where
  "example_density =
     \<lparr>dim = 4, flow_length = 0, flow_type = ''planar_flow'',
      z0_mean = \<lparr>shape = [4], data = [0, 0, 0, 0]\<rparr>,
      z0_cov = \<lparr>shape = [4, 4], data = [1, 0, 0, 0, 0, 1, 0, 0, 0, 0, 1, 0, 0, 0, 0, 1]\<rparr>,
      transforms = [], mean = None\<rparr>"

definition example_head :: "(int, int) decode_head" where
  "example_head =
     \<lparr>channels = 1, num_classes = 2, ignore_index = Some 255, align_corners = False,
      loss_decode = SingleLoss example_loss, sampler = None,
      conv_seg_weight = \<lparr>shape = [2, 1, 1, 1], data = [1, 2]\<rparr>,
      conv_seg_bias = \<lparr>shape = [2], data = [3, 4]\<rparr>,
      dropout = None, latent_dim = 4, nsamples_train = 10, nsamples_test = 1,
      density_estimation = example_density,
      w_shape = [2, 1, 1, 1], b_shape = [2], w_numel = 2, b_numel = 2,
      initial_p = \<lparr>shape = [4], data = [1, 2, 3, 4]\<rparr>\<rparr>"

definition example_loaded_head :: "(int, int) decode_head" where
  "example_loaded_head =
     example_head\<lparr>conv_seg_weight := \<lparr>shape = [2, 1, 1, 1], data = [5, 6]\<rparr>,
                  conv_seg_bias := \<lparr>shape = [2], data = [7, 8]\<rparr>\<rparr>"

definition example_sampled_edl_head :: "(int, int) decode_head" where
  "example_sampled_edl_head =
     example_head\<lparr>loss_decode := SingleLoss example_edl_loss, sampler := Some example_sampler\<rparr>"

definition example_ext :: "(int, int) externals" where
  "example_ext =
     \<lparr>resize = (\<lambda>input sz ac. input),
      accuracy = (\<lambda>seg_logit seg_label ign. 5),
      tensor_mean = (\<lambda>t. t),
      tensor_numel = (\<lambda>t. 1),
      squeeze_repeat = (\<lambda>seg_label n. seg_label)\<rparr>"

definition example_x :: "int tensor" where
  "example_x = \<lparr>shape = [2, 1, 1, 1], data = [3, 5]\<rparr>"

definition example_z :: "int tensor" where
  "example_z = \<lparr>shape = [2, 4], data = [1, 2, 3, 4, 5, 6, 7, 8]\<rparr>"

text \<open>
  A subclass's \<^verbatim>\<open>forward(self, inputs, nsamples)\<close>, with the parameters that
  \<^verbatim>\<open>forward_train\<close> passes: called without a sample count it raises \<^verbatim>\<open>TypeError\<close>.
\<close>

definition example_forward ::
    "(int, int) decode_head \<Rightarrow> int tensor \<Rightarrow> nat option \<Rightarrow> error + int tensor \<times> int" where
  "example_forward h inputs nsamples =
     (case nsamples of
        None \<Rightarrow> Inl TypeError
      | Some n \<Rightarrow> Inr (\<lparr>shape = n # shape inputs, data = concat (replicate n (data inputs))\<rparr>, 3))"

section \<open>The evaluation loops\<close>

text \<open>
  What the loops of \<^verbatim>\<open>mmseg/apis/test.py\<close> see of their collaborators. Arrays, logits,
  ground-truth maps and pre-evaluation results are values of a type \<open>'r\<close> that the loops
  only pass on. An entry of the result list is a prediction, the temporary file that
  \<^verbatim>\<open>np2tmp\<close> wrote for it (the \<open>k\<close>-th file made in \<^verbatim>\<open>.efficient_test\<close>), or the pair of
  pre-evaluation results. The auxiliary pre-evaluation is called for the evidential
  interpretation (with the loss's \<^verbatim>\<open>pow_alpha\<close>), the softmax interpretation (with the
  loss's \<^verbatim>\<open>use_softplus\<close>) or the bags of the head.
\<close>

datatype 'r result_entry = Prediction 'r | TmpFile nat | PreEval 'r 'r

datatype aux_call = EdlAux bool | SoftmaxAux bool | BagsAux

record img_meta =
  ori_filename :: string

text \<open>
  One step of \<^verbatim>\<open>zip(loader_indices, data_loader)\<close>: the indices of the batch, and of the
  data the images that \<^verbatim>\<open>tensor2imgs\<close> makes and their metas.
\<close>

record 'r batch =
  batch_indices :: "nat list"
  imgs :: "'r list"
  img_metas :: "img_meta list"

record 'r dataset =
  dataset_len :: nat
  get_gt_seg_map_by_idx_and_reduce_zero_label :: "nat \<Rightarrow> 'r"
  dataset_format_results :: "'r result_entry list \<Rightarrow> nat list \<Rightarrow> 'r result_entry list"
  dataset_pre_eval :: "'r result_entry list \<Rightarrow> nat list \<Rightarrow> 'r list"
  dataset_pre_eval_custom :: "'r \<Rightarrow> 'r \<Rightarrow> aux_call \<Rightarrow> 'r"
  ood_indices :: "nat list option"

record 'r data_loader =
  batch_size :: nat
  dataset :: "'r dataset"
  batches :: "'r batch list"

text \<open>
  The model, wrapped as the test scripts wrap it (\<^verbatim>\<open>model.module\<close> exists): its inference
  \<^verbatim>\<open>model(return_loss=False, **data)\<close>, which returns the predictions and the logits, and
  what the loops read of its decode head and of the head's loss.
\<close>

record 'r segmentor =
  infer :: "'r batch \<Rightarrow> 'r list \<times> 'r"
  use_bags :: bool
  head_loss_name :: string
  pow_alpha :: bool
  use_softplus :: bool

text \<open>
  The effects of a call: the warnings issued, the directories that exist, whether
  \<^verbatim>\<open>model.eval()\<close> was called, the batches given to the model, the calls of
  \<^verbatim>\<open>show_result\<close> (the array, \<open>show\<close> and \<open>out_file\<close>), the files that \<^verbatim>\<open>plot_conf\<close> and
  \<^verbatim>\<open>plot_mask\<close> wrote, the number of temporary files, and the progress bar.
\<close>

datatype 'r show_call = ShowResult 'r bool "string option"

record 'r world =
  warnings :: "string list"
  dirs :: "string set"
  eval_mode :: bool
  model_calls :: "nat list list"
  shown :: "'r show_call list"
  plots :: "string list"
  tmp_count :: nat
  progress :: nat

definition deprecation_msg :: string where
  "deprecation_msg =
     ''DeprecationWarning: ``efficient_test`` will be deprecated, the evaluation is CPU memory friendly with pre_eval=True''"

definition exclusive_msg :: string where
  "exclusive_msg =
     ''``efficient_test``, ``pre_eval`` and ``format_only`` are mutually exclusive, only one of them could be true .''"

definition batch_size_msg :: string where
  "batch_size_msg = ''TEST SCRIPT ONLY WORKS WITH BATCH SIZE=1''"

text \<open>
  The first statement of both entry points: with \<open>efficient_test\<close> the warning is issued
  and \<^verbatim>\<open>mmcv.mkdir_or_exist('.efficient_test')\<close> makes the directory.
\<close>

definition efficient_setup :: "bool \<Rightarrow> 'r world \<Rightarrow> 'r world" where
  "efficient_setup efficient_test w =
     (if efficient_test
      then w\<lparr>warnings := warnings w @ [deprecation_msg],
             dirs := insert ''.efficient_test'' (dirs w)\<rparr>
      else w)"

text \<open>The truth value of \<open>out_dir\<close>: \<open>None\<close> and the empty string are false.\<close>

definition truthy :: "string option \<Rightarrow> bool" where
  "truthy d = (case d of None \<Rightarrow> False | Some s \<Rightarrow> s \<noteq> [])"

text \<open>\<^verbatim>\<open>osp.join(a, b)\<close> of two parts, and \<^verbatim>\<open>f[:-4] + tag + f[-4:]\<close>.\<close>

definition osp_join :: "string \<Rightarrow> string \<Rightarrow> string" where
  "osp_join a b =
     (if b \<noteq> [] \<and> hd b = CHR ''/'' then b
      else if a = [] \<or> last a = CHR ''/'' then a @ b
      else a @ ''/'' @ b)"

definition tagged :: "string \<Rightarrow> string \<Rightarrow> string" where
  "tagged f tag = take (length f - 4) f @ tag @ drop (length f - 4) f"

definition aux_of :: "'r segmentor \<Rightarrow> aux_call" where
  "aux_of m =
     (if \<not> use_bags m
      then (if startswith (head_loss_name m) ''loss_edl'' then EdlAux (pow_alpha m)
            else SoftmaxAux (use_softplus m))
      else BagsAux)"

text \<open>
  The body of the loop over the images of a batch in \<^verbatim>\<open>single_gpu_test\<close>. With no output
  directory \<open>out_file\<close> is \<open>None\<close>, and slicing it for the name of the ground-truth overlay
  raises \<^verbatim>\<open>TypeError\<close>, after the first call of \<^verbatim>\<open>show_result\<close>.
\<close>

definition visualize_image ::
    "'r segmentor \<Rightarrow> 'r dataset \<Rightarrow> bool \<Rightarrow> string option \<Rightarrow> 'r \<Rightarrow> 'r list \<Rightarrow> img_meta
      \<Rightarrow> 'r world \<Rightarrow> (error + unit) \<times> 'r world" where
  "visualize_image m ds show_flag out_dir seg_gt result meta w =
     (let out_file = (if truthy out_dir
                      then Some (osp_join (case out_dir of Some d \<Rightarrow> d | None \<Rightarrow> [])
                                          (ori_filename meta))
                      else None)
      in case result of
           [] \<Rightarrow> (Inl IndexError, w)
         | r0 # _ \<Rightarrow>
             (let w1 = w\<lparr>shown := shown w @ [ShowResult r0 show_flag out_file]\<rparr>
              in case out_file of
                   None \<Rightarrow> (Inl TypeError, w1)
                 | Some f \<Rightarrow>
                     (let w2 = w1\<lparr>shown := shown w1 @
                                   [ShowResult seg_gt show_flag (Some (tagged f ''_gt''))]\<rparr>;
                          w3 = (if \<not> use_bags m
                                then (if startswith (head_loss_name m) ''loss_edl''
                                      then w2\<lparr>plots := plots w2 @
                                             [tagged f ''_edl_u'', tagged f ''_edl_diss'',
                                              tagged f ''_edl_conf'']\<rparr>
                                      else w2\<lparr>plots := plots w2 @ [tagged f ''_sm_conf'']\<rparr>)
                                else w2);
                          w4 = w3\<lparr>plots := plots w3 @ [tagged f ''_edge_mask'']\<rparr>
                      in case ood_indices ds of
                           None \<Rightarrow> (Inr (), w4)
                         | Some [] \<Rightarrow> (Inl IndexError, w4)
                         | Some (_ # _) \<Rightarrow>
                             (Inr (), w4\<lparr>plots := plots w4 @ [tagged f ''_ood_mask'']\<rparr>))))"

fun visualize_images ::
    "'r segmentor \<Rightarrow> 'r dataset \<Rightarrow> bool \<Rightarrow> string option \<Rightarrow> 'r \<Rightarrow> 'r list
      \<Rightarrow> ('r \<times> img_meta) list \<Rightarrow> 'r world \<Rightarrow> (error + unit) \<times> 'r world" where
  "visualize_images m ds show_flag out_dir seg_gt result [] w = (Inr (), w)"
| "visualize_images m ds show_flag out_dir seg_gt result ((img, meta) # rest) w =
     (case visualize_image m ds show_flag out_dir seg_gt result meta w of
        (Inl e, w1) \<Rightarrow> (Inl e, w1)
      | (Inr _, w1) \<Rightarrow> visualize_images m ds show_flag out_dir seg_gt result rest w1)"

text \<open>
  What both loops do with the predictions of a batch after inference: the spill to
  temporary files, the formatting, and the pre-evaluation, which keeps the first
  pre-result of the batch and pairs it with the auxiliary one.
\<close>

definition collect_batch ::
    "'r segmentor \<Rightarrow> 'r dataset \<Rightarrow> bool \<Rightarrow> bool \<Rightarrow> bool \<Rightarrow> 'r batch \<Rightarrow> 'r list \<Rightarrow> 'r \<Rightarrow> 'r
      \<Rightarrow> 'r world \<Rightarrow> (error + 'r result_entry list) \<times> 'r world" where
  "collect_batch m ds efficient_test pre_eval format_only b result seg_logit seg_gt w =
     (let (result1, w1) =
            (if efficient_test
             then (map (\<lambda>k. TmpFile (tmp_count w + k)) [0..<length result],
                   w\<lparr>tmp_count := tmp_count w + length result\<rparr>)
             else (map Prediction result, w));
          result2 = (if format_only then dataset_format_results ds result1 (batch_indices b)
                     else result1)
      in if pre_eval
         then (case dataset_pre_eval ds result2 (batch_indices b) of
                 [] \<Rightarrow> (Inl IndexError, w1)
               | result_seg # _ \<Rightarrow>
                   (Inr [PreEval result_seg (dataset_pre_eval_custom ds seg_logit seg_gt (aux_of m))],
                    w1))
         else (Inr result2, w1))"

definition single_gpu_batch ::
    "'r segmentor \<Rightarrow> 'r dataset \<Rightarrow> bool \<Rightarrow> string option \<Rightarrow> bool \<Rightarrow> bool \<Rightarrow> bool \<Rightarrow> 'r batch
      \<Rightarrow> 'r world \<Rightarrow> (error + 'r result_entry list) \<times> 'r world" where
  "single_gpu_batch m ds show_flag out_dir efficient_test pre_eval format_only b w =
     (let (result, seg_logit) = infer m b;
          w1 = w\<lparr>model_calls := model_calls w @ [batch_indices b]\<rparr>
      in case batch_indices b of
           [] \<Rightarrow> (Inl IndexError, w1)
         | i0 # _ \<Rightarrow>
             (let seg_gt = get_gt_seg_map_by_idx_and_reduce_zero_label ds i0
              in case (if show_flag \<or> truthy out_dir
                       then (if length (imgs b) = length (img_metas b)
                             then visualize_images m ds show_flag out_dir seg_gt result
                                    (zip (imgs b) (img_metas b)) w1
                             else (Inl (AssertionError []), w1))
                       else (Inr (), w1)) of
                   (Inl e, w2) \<Rightarrow> (Inl e, w2)
                 | (Inr _, w2) \<Rightarrow>
                     (case collect_batch m ds efficient_test pre_eval format_only b result
                             seg_logit seg_gt w2 of
                        (Inl e, w3) \<Rightarrow> (Inl e, w3)
                      | (Inr entries, w3) \<Rightarrow>
                          (Inr entries, w3\<lparr>progress := progress w3 + length entries\<rparr>))))"

fun single_gpu_loop ::
    "'r segmentor \<Rightarrow> 'r dataset \<Rightarrow> bool \<Rightarrow> string option \<Rightarrow> bool \<Rightarrow> bool \<Rightarrow> bool
      \<Rightarrow> 'r batch list \<Rightarrow> 'r result_entry list \<Rightarrow> 'r world
      \<Rightarrow> (error + 'r result_entry list) \<times> 'r world" where
  "single_gpu_loop m ds show_flag out_dir efficient_test pre_eval format_only [] results w =
     (Inr results, w)"
| "single_gpu_loop m ds show_flag out_dir efficient_test pre_eval format_only (b # bs) results w =
     (case single_gpu_batch m ds show_flag out_dir efficient_test pre_eval format_only b w of
        (Inl e, w1) \<Rightarrow> (Inl e, w1)
      | (Inr entries, w1) \<Rightarrow>
          single_gpu_loop m ds show_flag out_dir efficient_test pre_eval format_only bs
            (results @ entries) w1)"

definition single_gpu_test ::
    "'r segmentor \<Rightarrow> 'r data_loader \<Rightarrow> bool \<Rightarrow> string option \<Rightarrow> bool \<Rightarrow> bool \<Rightarrow> bool
      \<Rightarrow> 'r world \<Rightarrow> (error + 'r result_entry list) \<times> 'r world" where
  "single_gpu_test m data_loader show_flag out_dir efficient_test pre_eval format_only w =
     (let w1 = efficient_setup efficient_test w
      in if \<not> count_list [efficient_test, pre_eval, format_only] True \<le> 1
         then (Inl (AssertionError exclusive_msg), w1)
         else (let w2 = w1\<lparr>eval_mode := True\<rparr>
               in if batch_size data_loader \<noteq> 1
                  then (Inl (AssertionError batch_size_msg), w2)
                  else single_gpu_loop m (dataset data_loader) show_flag out_dir efficient_test
                         pre_eval format_only (batches data_loader) [] w2))"

subsection \<open>The multi-process loop and the aggregation\<close>

text \<open>
  Modelled from the spec: \<^verbatim>\<open>collect_results_cpu\<close> and \<^verbatim>\<open>collect_results_gpu\<close> are mmcv's
  and are not among the sources. By sections 4.4 and 5 of the specification, the
  aggregation takes the partial lists of all processes, puts the results back into the
  order of the dataset by the round-robin contract (process \<open>i\<close> contributed every
  \<open>world_size\<close>-th index starting at \<open>i\<close>), discards what lies beyond the size of the
  dataset, and fails when the result of some dataset index is missing.
\<close>

definition collect_results :: "'x list list \<Rightarrow> nat \<Rightarrow> error + 'x list" where
  "collect_results parts sz =
     (let world_size = length parts
      in if list_all (\<lambda>g. world_size \<noteq> 0 \<and> g div world_size < length (parts ! (g mod world_size)))
                     [0..<sz]
         then Inr (map (\<lambda>g. parts ! (g mod world_size) ! (g div world_size)) [0..<sz])
         else Inl RuntimeError)"


definition multi_gpu_batch ::
    "'r segmentor \<Rightarrow> 'r dataset \<Rightarrow> bool \<Rightarrow> bool \<Rightarrow> bool \<Rightarrow> nat \<Rightarrow> nat \<Rightarrow> 'r batch
      \<Rightarrow> 'r world \<Rightarrow> (error + 'r result_entry list) \<times> 'r world" where
  "multi_gpu_batch m ds efficient_test pre_eval format_only rank world_size b w =
     (let (result, seg_logit) = infer m b;
          w1 = w\<lparr>model_calls := model_calls w @ [batch_indices b]\<rparr>
      in case batch_indices b of
           [] \<Rightarrow> (Inl IndexError, w1)
         | i0 # _ \<Rightarrow>
             (let seg_gt = get_gt_seg_map_by_idx_and_reduce_zero_label ds i0
              in case collect_batch m ds efficient_test pre_eval format_only b result
                        seg_logit seg_gt w1 of
                   (Inl e, w2) \<Rightarrow> (Inl e, w2)
                 | (Inr entries, w2) \<Rightarrow>
                     (Inr entries,
                      if rank = 0
                      then w2\<lparr>progress := progress w2 + length entries * world_size\<rparr>
                      else w2)))"

fun multi_gpu_loop ::
    "'r segmentor \<Rightarrow> 'r dataset \<Rightarrow> bool \<Rightarrow> bool \<Rightarrow> bool \<Rightarrow> nat \<Rightarrow> nat
      \<Rightarrow> 'r batch list \<Rightarrow> 'r result_entry list \<Rightarrow> 'r world
      \<Rightarrow> (error + 'r result_entry list) \<times> 'r world" where
  "multi_gpu_loop m ds efficient_test pre_eval format_only rank world_size [] results w =
     (Inr results, w)"
| "multi_gpu_loop m ds efficient_test pre_eval format_only rank world_size (b # bs) results w =
     (case multi_gpu_batch m ds efficient_test pre_eval format_only rank world_size b w of
        (Inl e, w1) \<Rightarrow> (Inl e, w1)
      | (Inr entries, w1) \<Rightarrow>
          multi_gpu_loop m ds efficient_test pre_eval format_only rank world_size bs
            (results @ entries) w1)"

text \<open>
  \<^verbatim>\<open>multi_gpu_test\<close> in the process \<open>rank\<close> of \<open>world_size\<close>. \<open>peers\<close> holds the partial
  lists that the processes bring to the aggregation; the process's own list takes its
  place among them.
\<close>

definition multi_gpu_test ::
    "'r segmentor \<Rightarrow> 'r data_loader \<Rightarrow> string option \<Rightarrow> bool \<Rightarrow> bool \<Rightarrow> bool \<Rightarrow> bool
      \<Rightarrow> nat \<Rightarrow> nat \<Rightarrow> 'r result_entry list list \<Rightarrow> 'r world
      \<Rightarrow> (error + 'r result_entry list) \<times> 'r world" where
  "multi_gpu_test m data_loader tmpdir gpu_collect efficient_test pre_eval format_only
       rank world_size peers w =
     (let w1 = efficient_setup efficient_test w
      in if \<not> count_list [efficient_test, pre_eval, format_only] True \<le> 1
         then (Inl (AssertionError exclusive_msg), w1)
         else (let w2 = w1\<lparr>eval_mode := True\<rparr>
               in case multi_gpu_loop m (dataset data_loader) efficient_test pre_eval format_only
                         rank world_size (batches data_loader) [] w2 of
                    (Inl e, w3) \<Rightarrow> (Inl e, w3)
                  | (Inr results, w3) \<Rightarrow>
                      (collect_results (peers[rank := results])
                         (dataset_len (dataset data_loader)), w3)))"


subsection \<open>A small model and dataset, for the concrete cases\<close>

text \<open>
  Sample \<open>i\<close> has the prediction \<open>100 + i\<close> and the ground truth \<open>200 + i\<close>; every image is
  \<^verbatim>\<open>a.png\<close>. \<open>example_loader\<close> delivers the two samples one per step, \<open>example_loader2\<close>
  both in one step.
\<close>

definition example_model :: "nat segmentor" where
  "example_model =
     \<lparr>infer = (\<lambda>b. (map (\<lambda>i. 100 + i) (batch_indices b), 7)),
      use_bags = False, head_loss_name = ''loss_ce'', pow_alpha = False, use_softplus = False\<rparr>"

definition example_dataset :: "nat \<Rightarrow> nat dataset" where
  "example_dataset n =
     \<lparr>dataset_len = n,
      get_gt_seg_map_by_idx_and_reduce_zero_label = (\<lambda>i. 200 + i),
      dataset_format_results = (\<lambda>result indices. result),
      dataset_pre_eval = (\<lambda>result indices. map (\<lambda>i. 300 + i) indices),
      dataset_pre_eval_custom = (\<lambda>seg_logit seg_gt aux. 400),
      ood_indices = None\<rparr>"

definition example_batch :: "nat \<Rightarrow> nat batch" where
  "example_batch i =
     \<lparr>batch_indices = [i], imgs = [500 + i], img_metas = [\<lparr>ori_filename = ''a.png''\<rparr>]\<rparr>"

definition example_loader :: "nat data_loader" where
  "example_loader =
     \<lparr>batch_size = 1, dataset = example_dataset 2, batches = [example_batch 0, example_batch 1]\<rparr>"

definition example_loader2 :: "nat data_loader" where
  "example_loader2 =
     \<lparr>batch_size = 2, dataset = example_dataset 2,
      batches = [\<lparr>batch_indices = [0, 1], imgs = [500, 501],
                  img_metas = [\<lparr>ori_filename = ''a.png''\<rparr>, \<lparr>ori_filename = ''a.png''\<rparr>]\<rparr>]\<rparr>"

definition empty_world :: "nat world" where
  "empty_world =
     \<lparr>warnings = [], dirs = {}, eval_mode = False, model_calls = [], shown = [], plots = [],
      tmp_count = 0, progress = 0\<rparr>"

section \<open>Properties of the flow density\<close>

lemma forward_loop_chain:
  "forward_loop ts z acc = (chain_final ts z, foldl (+) acc (chain_log_jacobians ts z))"
  by (induction ts arbitrary: z acc) (simp_all add: Let_def)

text \<open>
  C1. \<^verbatim>\<open>log_prob(x)\<close> is the log-density, under the base Gaussian built from \<open>z0_mean\<close> and
  \<open>z0_cov\<close>, of the vector that \<^verbatim>\<open>forward(x)\<close> returns, plus the sum that \<^verbatim>\<open>forward(x)\<close>
  returns; that vector is the input pushed through the chain, and that sum adds, from 0
  and in chain order, the log-absolute-Jacobian-determinant of every transform. The
  identity is exact for any addition, so it does not depend on rounding.
\<close>

theorem log_prob_change_of_variables:
  "nf_log_prob td d x =
     mvn_log_prob td \<lparr>loc = z0_mean d, covariance_matrix = z0_cov d\<rparr> (fst (nf_forward d x))
       + snd (nf_forward d x)
   \<and> fst (nf_forward d x) = chain_final (transforms d) x
   \<and> snd (nf_forward d x) = foldl (+) 0 (chain_log_jacobians (transforms d) x)"
  by (simp add: nf_log_prob_def nf_forward_def forward_loop_chain)

section \<open>Properties of the decode head\<close>

subsection \<open>The example head is one that the constructor builds\<close>

lemma example_head_built:
  "NfBllBaseDecodeHead_init mk (\<lambda>c. c) (\<lambda>(c::unit). example_sampler) (\<lambda>i. int i + 1) (\<lambda>i. int i + 3)
     1 2 0 drop_layer (Some 255) False (DictCfg example_loss) None ''planar_flow'' 0 10
   = Inr example_head"
  by (simp add: NfBllBaseDecodeHead_init_def NormalizingFlowDensity_init_def example_head_def
      example_density_def zeros_def eye_def numel_def cat_vectors_def flatten_def upt_rec
      eval_nat_numeral)

subsection \<open>The base Gaussian and the parameters of the classifier\<close>

text \<open>
  \<^verbatim>\<open>update_z0_params\<close> assigns \<open>initial_p\<close> and the attribute \<open>mean\<close> of the density. The
  base Gaussian of \<^verbatim>\<open>log_prob\<close> and \<^verbatim>\<open>sample_base\<close> is built from \<open>z0_mean\<close> and \<open>z0_cov\<close>,
  which it leaves as they are.
\<close>

lemma update_z0_params_base:
  "z0_mean (density_estimation (update_z0_params h)) = z0_mean (density_estimation h)
   \<and> z0_cov (density_estimation (update_z0_params h)) = z0_cov (density_estimation h)
   \<and> nf_log_prob td (density_estimation (update_z0_params h)) x = nf_log_prob td (density_estimation h) x
   \<and> sample_base td (density_estimation (update_z0_params h)) n = sample_base td (density_estimation h) n"
  by (simp add: update_z0_params_def Let_def nf_log_prob_def nf_forward_def sample_base_def)

text \<open>
  C3. The claim is that after \<^verbatim>\<open>update_z0_params\<close> the base Gaussian has the updated
  \<open>initial_p\<close> as its mean. On the head whose \<^verbatim>\<open>conv_seg\<close> a checkpoint has set to the
  weights 5, 6 and the biases 7, 8, \<^verbatim>\<open>update_z0_params\<close> makes \<open>initial_p\<close> and \<open>mean\<close> the
  vector (5, 6, 7, 8), but \<open>z0_mean\<close> is still the zero vector, and \<^verbatim>\<open>sample_base\<close> and
  \<^verbatim>\<open>log_prob\<close> still use the Gaussian around zero.
\<close>

theorem update_z0_params_base_mean_stays_zero:
  "initial_p (update_z0_params example_loaded_head) = \<lparr>shape = [4], data = [5, 6, 7, 8]\<rparr>
   \<and> mean (density_estimation (update_z0_params example_loaded_head))
       = Some \<lparr>shape = [4], data = [5, 6, 7, 8]\<rparr>
   \<and> z0_mean (density_estimation (update_z0_params example_loaded_head))
       = \<lparr>shape = [4], data = [0, 0, 0, 0]\<rparr>
   \<and> sample_base td (density_estimation (update_z0_params example_loaded_head)) n
       = mvn_sample td \<lparr>loc = \<lparr>shape = [4], data = [0, 0, 0, 0]\<rparr>,
                        covariance_matrix = z0_cov example_density\<rparr> [n]
   \<and> nf_log_prob td (density_estimation (update_z0_params example_loaded_head)) x
       = mvn_log_prob td \<lparr>loc = \<lparr>shape = [4], data = [0, 0, 0, 0]\<rparr>,
                          covariance_matrix = z0_cov example_density\<rparr> x + 0"
  by (simp add: update_z0_params_def Let_def example_loaded_head_def example_head_def
      example_density_def cat_vectors_def flatten_def sample_base_def nf_log_prob_def nf_forward_def)

subsection \<open>The sampled classifiers\<close>

lemma sample_logits_chunk:
  assumes hs: "conv_seg_shapes h" and K: "0 < num_classes h" and C: "0 < channels h"
    and x: "shape x = [N, channels h, H, W]"
    and r: "length r = w_numel h + b_numel h"
  shows "sample_logits h x \<lparr>shape = [1, w_numel h + b_numel h], data = r\<rparr> =
         Inr (conv2d_out x \<lparr>shape = w_shape h, data = take (w_numel h) r\<rparr>
                           \<lparr>shape = b_shape h, data = drop (w_numel h) r\<rparr>)"
proof -
  let ?wn = "w_numel h" and ?bn = "b_numel h"
  have W: "0 < ?wn" and B: "0 < ?bn"
    using hs K C by (simp_all add: conv_seg_shapes_def)
  have sq: "squeeze \<lparr>shape = [1, ?wn + ?bn], data = r\<rparr> = \<lparr>shape = [?wn + ?bn], data = r\<rparr>"
    using W B by (simp add: squeeze_def)
  have s1: "slice_to ?wn \<lparr>shape = [?wn + ?bn], data = r\<rparr>
              = Inr \<lparr>shape = [?wn], data = take ?wn r\<rparr>"
    by (simp add: slice_to_def)
  have r1: "reshape \<lparr>shape = [?wn], data = take ?wn r\<rparr> (w_shape h)
              = Inr \<lparr>shape = w_shape h, data = take ?wn r\<rparr>"
    using hs r by (simp add: reshape_def conv_seg_shapes_def)
  have s2: "slice_last ?bn \<lparr>shape = [?wn + ?bn], data = r\<rparr>
              = Inr \<lparr>shape = [?bn], data = drop ?wn r\<rparr>"
    using W B by (simp add: slice_last_def)
  have r2: "reshape \<lparr>shape = [?bn], data = drop ?wn r\<rparr> (b_shape h)
              = Inr \<lparr>shape = b_shape h, data = drop ?wn r\<rparr>"
    using hs r by (simp add: reshape_def conv_seg_shapes_def)
  have cv: "conv2d x \<lparr>shape = w_shape h, data = take ?wn r\<rparr> \<lparr>shape = b_shape h, data = drop ?wn r\<rparr>
              = Inr (conv2d_out x \<lparr>shape = w_shape h, data = take ?wn r\<rparr>
                                  \<lparr>shape = b_shape h, data = drop ?wn r\<rparr>)"
    using hs x by (simp add: conv2d_def conv_seg_shapes_def)
  show ?thesis
    unfolding sample_logits_def Let_def sq
    by (simp add: bnd_def s1 r1 s2 r2 cv)
qed

lemma map_result_all:
  "(\<And>x. x \<in> set xs \<Longrightarrow> f x = Inr (g x)) \<Longrightarrow> map_result f xs = Inr (map g xs)"
  by (induction xs) simp_all

lemma cat0_same_shape:
  assumes "ts \<noteq> []" and "\<And>t. t \<in> set ts \<Longrightarrow> shape t = d # rest"
  shows "cat0 ts = Inr \<lparr>shape = (length ts * d) # rest, data = concat (map data ts)\<rparr>"
proof -
  have hd_sum: "sum_list (map (\<lambda>u. hd (shape u)) us) = length us * d"
    if "\<And>t. t \<in> set us \<Longrightarrow> shape t = d # rest" for us :: "'a tensor list"
    using that by (induction us) simp_all
  obtain t tl_ts where ts: "ts = t # tl_ts"
    using assms(1) by (cases ts) auto
  have all: "list_all (\<lambda>u. shape u \<noteq> [] \<and> tl (shape u) = tl (shape t)) tl_ts"
    using assms(2) ts by (simp add: list_all_iff)
  have "shape t = d # rest"
    using assms(2) ts by simp
  then show ?thesis
    using all hd_sum[of ts] assms(2) unfolding cat0_def ts by simp
qed

lemma shape_conv2d_out:
  "shape (conv2d_out x weight bias) = [shape x ! 0, shape weight ! 0, shape x ! 2, shape x ! 3]"
  by (simp add: conv2d_out_def Let_def)

lemma length_z_row:
  assumes "shape z = [n, L]" and "wf_tensor z" and "i < n"
  shows "length (z_row z i) = L"
proof -
  have "i * L + L \<le> n * L"
    using assms(3) by (metis Suc_leI mult_Suc mult_le_mono1 add.commute)
  then show ?thesis
    using assms(1,2) by (simp add: z_row_def wf_tensor_def)
qed

text \<open>
  C4. For a head with the shapes of its convolution, a feature map \<open>x\<close> of batch size
  \<open>N\<close> and a well-formed matrix \<open>z\<close> of \<open>n \<ge> 1\<close> sampled parameter vectors,
  \<^verbatim>\<open>conv_seg_forward\<close> returns the tensor of leading dimension \<open>n * N\<close> that holds, one
  after the other along the batch dimension, the 1x1 convolution of \<open>x\<close> with the weight
  and the bias of each row of \<open>z\<close>; for \<open>n = 1\<close> it is the ordinary classification
  \<^verbatim>\<open>conv_seg(x)\<close> with the parameters of that row.
\<close>

theorem conv_seg_forward_samples:
  assumes hs: "conv_seg_shapes h" and K: "0 < num_classes h" and C: "0 < channels h"
    and x: "shape x = [N, channels h, H, W]"
    and z: "shape z = [n, w_numel h + b_numel h]" and wf: "wf_tensor z" and n: "0 < n"
  shows "conv_seg_forward h x z =
           Inr \<lparr>shape = [n * N, num_classes h, H, W],
                data = concat (map (\<lambda>i. data (conv2d_out x (sampled_weight h z i) (sampled_bias h z i)))
                                   [0..<n])\<rparr>
         \<and> (n = 1 \<longrightarrow>
              conv_seg_forward h x z =
                conv_seg_call (h\<lparr>conv_seg_weight := sampled_weight h z 0,
                                  conv_seg_bias := sampled_bias h z 0\<rparr>) x)"
proof -
  let ?L = "w_numel h + b_numel h"
  let ?chunk = "\<lambda>i. \<lparr>shape = [1, ?L], data = z_row z i\<rparr>"
  let ?out = "\<lambda>i. conv2d_out x (sampled_weight h z i) (sampled_bias h z i)"
  have split: "split_rows z = Inr (map ?chunk [0..<n])"
    using z n by (simp add: split_rows_def z_row_def)
  have each: "sample_logits h x c = Inr ((\<lambda>c. conv2d_out x \<lparr>shape = w_shape h, data = take (w_numel h) (data c)\<rparr>
                  \<lparr>shape = b_shape h, data = drop (w_numel h) (data c)\<rparr>) c)"
    if "c \<in> set (map ?chunk [0..<n])" for c
  proof -
    from that have "c \<in> ?chunk ` {0..<n}"
      by (simp only: set_map set_upt)
    then obtain i where i0: "i \<in> {0..<n}" and c: "c = ?chunk i"
      by blast
    from i0 have i: "i < n"
      by simp
    show ?thesis
      unfolding c using sample_logits_chunk[OF hs K C x length_z_row[OF z wf i]] by simp
  qed
  have outs: "map_result (sample_logits h x) (map ?chunk [0..<n]) = Inr (map ?out [0..<n])"
    using map_result_all[of "map ?chunk [0..<n]" "sample_logits h x", OF each]
    by (simp add: sampled_weight_def sampled_bias_def o_def)
  have shp: "shape t = N # [num_classes h, H, W]" if "t \<in> set (map ?out [0..<n])" for t
    using that hs x by (auto simp: shape_conv2d_out sampled_weight_def conv_seg_shapes_def)
  have ne: "map ?out [0..<n] \<noteq> []"
    using n by simp
  have cat: "cat0 (map ?out [0..<n]) =
               Inr \<lparr>shape = [n * N, num_classes h, H, W], data = concat (map (\<lambda>i. data (?out i)) [0..<n])\<rparr>"
    using cat0_same_shape[OF ne shp] by (simp add: o_def)
  have main: "conv_seg_forward h x z =
           Inr \<lparr>shape = [n * N, num_classes h, H, W], data = concat (map (\<lambda>i. data (?out i)) [0..<n])\<rparr>"
    unfolding conv_seg_forward_def split
    by (simp only: bnd_def sum.case outs cat)
  have one: "conv_seg_forward h x z =
                conv_seg_call (h\<lparr>conv_seg_weight := sampled_weight h z 0,
                                  conv_seg_bias := sampled_bias h z 0\<rparr>) x" if "n = 1"
  proof -
    have "conv_seg_call (h\<lparr>conv_seg_weight := sampled_weight h z 0,
                            conv_seg_bias := sampled_bias h z 0\<rparr>) x = Inr (?out 0)"
      using hs x by (simp add: conv_seg_call_def conv2d_def sampled_weight_def sampled_bias_def
          conv_seg_shapes_def)
    moreover have "\<lparr>shape = [N, num_classes h, H, W], data = data (?out 0)\<rparr> = ?out 0"
      using shp[of "?out 0"] n by simp
    ultimately show ?thesis
      using main that by simp
  qed
  show ?thesis
    using main one by simp
qed

theorem conv_seg_forward_samples_witness:
  "conv_seg_shapes example_head \<and> 0 < num_classes example_head \<and> 0 < channels example_head
   \<and> shape example_x = [2, channels example_head, 1, 1]
   \<and> shape example_z = [2, w_numel example_head + b_numel example_head]
   \<and> wf_tensor example_z
   \<and> conv_seg_forward example_head example_x example_z
       = Inr \<lparr>shape = [4, 2, 1, 1], data = [6, 10, 8, 14, 22, 26, 32, 38]\<rparr>"
proof -
  have hs: "conv_seg_shapes example_head"
    by (simp add: conv_seg_shapes_def example_head_def)
  have K: "0 < num_classes example_head" and C: "0 < channels example_head"
    by (simp_all add: example_head_def)
  have x: "shape example_x = [2, channels example_head, 1, 1]"
    by (simp add: example_x_def example_head_def)
  have z: "shape example_z = [2, w_numel example_head + b_numel example_head]"
    by (simp add: example_z_def example_head_def)
  have wf: "wf_tensor example_z"
    by (simp add: wf_tensor_def example_z_def)
  have n: "0 < (2::nat)"
    by simp
  have d: "concat (map (\<lambda>i. data (conv2d_out example_x (sampled_weight example_head example_z i)
                                  (sampled_bias example_head example_z i))) [0..<2])
           = [6, 10, 8, 14, 22, 26, 32, 38]"
    by (simp add: conv2d_out_def conv2d_pixel_def sampled_weight_def sampled_bias_def z_row_def
        example_x_def example_z_def example_head_def upt_rec)
  have nc: "num_classes example_head = 2"
    by (simp add: example_head_def)
  have main: "conv_seg_forward example_head example_x example_z
       = Inr \<lparr>shape = [4, 2, 1, 1], data = [6, 10, 8, 14, 22, 26, 32, 38]\<rparr>"
    using conv_seg_forward_samples[OF hs K C x z wf n] by (simp add: d nc)
  show ?thesis
    using hs K C x z wf main by (intro conjI)
qed

subsection \<open>The test-time forward\<close>

text \<open>
  C8. The claim is that \<^verbatim>\<open>forward_test\<close> calls \<^verbatim>\<open>forward\<close> with \<open>nsamples_test\<close> (fixed to 1)
  samples and returns the logits only. \<^verbatim>\<open>forward_test\<close> is \<^verbatim>\<open>self.forward(inputs)\<close>: it
  passes no sample count, whatever \<open>nsamples_test\<close> is, and returns what \<^verbatim>\<open>forward\<close>
  returns. With a \<^verbatim>\<open>forward\<close> that takes the sample count as \<^verbatim>\<open>forward_train\<close> passes it, the
  call raises \<^verbatim>\<open>TypeError\<close>, where the call with \<open>nsamples_test\<close> would have returned the
  logits of one sample.
\<close>

theorem forward_test_passes_no_sample_count:
  "forward_test fwd h inputs = fwd h inputs None
   \<and> forward_test fwd (h\<lparr>nsamples_test := k\<rparr>) inputs = fwd (h\<lparr>nsamples_test := k\<rparr>) inputs None
   \<and> nsamples_test example_head = 1
   \<and> forward_test example_forward example_head example_x = Inl TypeError
   \<and> example_forward example_head example_x (Some (nsamples_test example_head))
       = Inr (\<lparr>shape = [1, 2, 1, 1, 1], data = [3, 5]\<rparr>, 3)"
  by (simp add: forward_test_def example_forward_def example_head_def example_x_def)

subsection \<open>The losses\<close>

lemma losses_loop_snoc:
  "losses_loop lg lb sw ign m (pre @ [ld]) loss =
     (case losses_loop lg lb sw ign m pre loss of
        Inl e \<Rightarrow> Inl e
      | Inr lp \<Rightarrow> losses_loop lg lb sw ign m [ld] lp)"
  by (induction pre arbitrary: loss) (simp_all add: Let_def split: option.split)

lemma losses_single:
  assumes "loss_decode h = SingleLoss ld"
  shows "losses ext h seg_logit seg_label slj =
           losses_loop (resized_logit ext h seg_logit seg_label)
             (repeated_label ext seg_label slj) (sampled_seg_weight ext h seg_logit seg_label)
             (ignore_index h) (tensor_mean ext slj) [ld]
             [''acc_seg'' \<mapsto> accuracy ext (resized_logit ext h seg_logit seg_label)
                                 (repeated_label ext seg_label slj) (ignore_index h)]"
  using assms
  by (simp add: losses_def Let_def resized_logit_def repeated_label_def
      sampled_seg_weight_def del: losses_loop.simps cong: option.case_cong)

lemma losses_snoc:
  assumes "loss_decode h = ModuleList (pre @ [ld])"
    and "losses ext (h\<lparr>loss_decode := ModuleList pre\<rparr>) seg_logit seg_label slj = Inr lp"
  shows "losses ext h seg_logit seg_label slj =
           losses_loop (resized_logit ext h seg_logit seg_label)
             (repeated_label ext seg_label slj) (sampled_seg_weight ext h seg_logit seg_label)
             (ignore_index h) (tensor_mean ext slj) [ld] lp"
  using assms
  by (simp add: losses_def Let_def losses_loop_snoc resized_logit_def repeated_label_def
      sampled_seg_weight_def del: losses_loop.simps cong: option.case_cong)

text \<open>
  C5. In \<^verbatim>\<open>losses\<close>, for a head with a single loss module as for a head with a list of
  them, a loss whose name is not yet a key of the dictionary (its name appears for the
  first time) gets as its entry its loss plus the mean of \<open>sum_log_jacobians\<close>; a loss whose
  name starts with \<^verbatim>\<open>loss_edl\<close> also merges its logs and records the mean under
  \<^verbatim>\<open>mean_jacobian_logdet\<close>, and any other loss changes nothing but the entry of its name.
  For the single module the dictionary before it holds \<^verbatim>\<open>acc_seg\<close> only; for the last
  module of a list it is the dictionary that \<^verbatim>\<open>losses\<close> builds for the modules before it.
\<close>

theorem losses_adds_mean_jacobian:
  "(loss_decode h = SingleLoss ld \<and> loss_name ld \<noteq> ''acc_seg'' \<longrightarrow>
      losses ext h seg_logit seg_label slj =
        Inr (first_appearance ld (resized_logit ext h seg_logit seg_label)
               (repeated_label ext seg_label slj) (ignore_index h) (tensor_mean ext slj)
               [''acc_seg'' \<mapsto> accuracy ext (resized_logit ext h seg_logit seg_label)
                                   (repeated_label ext seg_label slj) (ignore_index h)]))
   \<and> (loss_decode h = ModuleList (pre @ [ld])
        \<and> losses ext (h\<lparr>loss_decode := ModuleList pre\<rparr>) seg_logit seg_label slj = Inr lp
        \<and> lp (loss_name ld) = None \<longrightarrow>
      losses ext h seg_logit seg_label slj =
        Inr (first_appearance ld (resized_logit ext h seg_logit seg_label)
               (repeated_label ext seg_label slj) (ignore_index h) (tensor_mean ext slj) lp))"
proof (intro conjI impI)
  assume a: "loss_decode h = SingleLoss ld \<and> loss_name ld \<noteq> ''acc_seg''"
  then show "losses ext h seg_logit seg_label slj =
        Inr (first_appearance ld (resized_logit ext h seg_logit seg_label)
               (repeated_label ext seg_label slj) (ignore_index h) (tensor_mean ext slj)
               [''acc_seg'' \<mapsto> accuracy ext (resized_logit ext h seg_logit seg_label)
                                   (repeated_label ext seg_label slj) (ignore_index h)])"
    by (simp add: losses_single first_appearance_def Let_def)
next
  assume a: "loss_decode h = ModuleList (pre @ [ld])
        \<and> losses ext (h\<lparr>loss_decode := ModuleList pre\<rparr>) seg_logit seg_label slj = Inr lp
        \<and> lp (loss_name ld) = None"
  then have "losses ext h seg_logit seg_label slj =
           losses_loop (resized_logit ext h seg_logit seg_label)
             (repeated_label ext seg_label slj) (sampled_seg_weight ext h seg_logit seg_label)
             (ignore_index h) (tensor_mean ext slj) [ld] lp"
    using losses_snoc[of h pre ld ext seg_logit seg_label slj lp] by blast
  then show "losses ext h seg_logit seg_label slj =
        Inr (first_appearance ld (resized_logit ext h seg_logit seg_label)
               (repeated_label ext seg_label slj) (ignore_index h) (tensor_mean ext slj) lp)"
    using a by (simp add: first_appearance_def Let_def)
qed

theorem losses_adds_mean_jacobian_witness:
  "losses example_ext (example_head\<lparr>loss_decode := SingleLoss example_edl_loss\<rparr>)
        example_x example_x 3
     = Inr [''acc_seg'' \<mapsto> 5, ''loss_edl'' \<mapsto> 13, ''mean_ev_sum'' \<mapsto> 7,
            ''mean_jacobian_logdet'' \<mapsto> 3]
   \<and> losses example_ext example_head example_x example_x 3
     = Inr [''acc_seg'' \<mapsto> 5, ''loss_ce'' \<mapsto> 13]
   \<and> losses example_ext (example_head\<lparr>loss_decode := ModuleList [example_loss, example_edl_loss]\<rparr>)
        example_x example_x 3
     = Inr [''acc_seg'' \<mapsto> 5, ''loss_ce'' \<mapsto> 13, ''loss_edl'' \<mapsto> 13, ''mean_ev_sum'' \<mapsto> 7,
            ''mean_jacobian_logdet'' \<mapsto> 3]"
proof -
  let ?edl = "example_head\<lparr>loss_decode := SingleLoss example_edl_loss\<rparr>"
  let ?two = "example_head\<lparr>loss_decode := ModuleList [example_loss, example_edl_loss]\<rparr>"
  have s1: "loss_decode ?edl = SingleLoss example_edl_loss \<and> loss_name example_edl_loss \<noteq> ''acc_seg''"
    by (simp add: example_edl_loss_def)
  have s2: "loss_decode example_head = SingleLoss example_loss \<and> loss_name example_loss \<noteq> ''acc_seg''"
    by (simp add: example_head_def example_loss_def)
  have single_edl: "losses example_ext ?edl example_x example_x 3
     = Inr [''acc_seg'' \<mapsto> 5, ''loss_edl'' \<mapsto> 13, ''mean_ev_sum'' \<mapsto> 7,
            ''mean_jacobian_logdet'' \<mapsto> 3]"
    using s1 losses_adds_mean_jacobian[where h = ?edl and ld = example_edl_loss
        and ext = example_ext and seg_logit = example_x and seg_label = example_x and slj = 3]
    by (simp add: first_appearance_def example_edl_loss_def startswith_def example_ext_def
        resized_logit_def repeated_label_def)
  have single_ce: "losses example_ext example_head example_x example_x 3
     = Inr [''acc_seg'' \<mapsto> 5, ''loss_ce'' \<mapsto> 13]"
    using s2 losses_adds_mean_jacobian[where h = example_head and ld = example_loss
        and ext = example_ext and seg_logit = example_x and seg_label = example_x and slj = 3]
    by (simp add: first_appearance_def example_loss_def startswith_def example_ext_def
        resized_logit_def repeated_label_def)
  have prev: "losses example_ext (?two\<lparr>loss_decode := ModuleList [example_loss]\<rparr>)
        example_x example_x 3 = Inr [''acc_seg'' \<mapsto> 5, ''loss_ce'' \<mapsto> 13]"
    by (simp add: losses_def example_ext_def example_loss_def startswith_def)
  have l1: "loss_decode ?two = ModuleList ([example_loss] @ [example_edl_loss])"
    by simp
  have l3: "[''acc_seg'' \<mapsto> (5::int), ''loss_ce'' \<mapsto> 13] (loss_name example_edl_loss) = None"
    by (simp add: example_edl_loss_def)
  have two: "losses example_ext ?two example_x example_x 3
     = Inr [''acc_seg'' \<mapsto> 5, ''loss_ce'' \<mapsto> 13, ''loss_edl'' \<mapsto> 13, ''mean_ev_sum'' \<mapsto> 7,
            ''mean_jacobian_logdet'' \<mapsto> 3]"
    using l1 prev l3 losses_adds_mean_jacobian[where h = ?two and ld = example_edl_loss
        and pre = "[example_loss]" and lp = "[''acc_seg'' \<mapsto> 5, ''loss_ce'' \<mapsto> 13]"
        and ext = example_ext and seg_logit = example_x and seg_label = example_x and slj = 3]
    by (simp add: first_appearance_def example_edl_loss_def startswith_def example_ext_def
        resized_logit_def repeated_label_def)
  show ?thesis
    using single_edl single_ce two by (intro conjI)
qed

text \<open>
  C6. The claim is that the weight of a configured sampler goes to the losses that are not
  evidential and that a sampler together with an evidential loss raises
  \<^verbatim>\<open>NotImplementedError\<close>. On the head with a sampler and an evidential loss as its only
  loss, \<^verbatim>\<open>losses\<close> computes the weight of the sampler but raises nothing: the name of
  the loss appears for the first time, so the loss is called without the weight (10, not
  20) and the value is returned with the mean added. Only the branch for a name that is
  already a key passes the weight: there the evidential loss listed twice raises, and
  the cross-entropy loss listed twice adds its weighted value.
\<close>

theorem sampler_with_edl_loss_does_not_raise:
  "sampler example_sampled_edl_head = Some example_sampler
   \<and> loss_decode example_sampled_edl_head = SingleLoss example_edl_loss
   \<and> startswith (loss_name example_edl_loss) ''loss_edl''
   \<and> sampled_seg_weight example_ext example_sampled_edl_head example_x example_x = Some example_x
   \<and> losses example_ext example_sampled_edl_head example_x example_x 3
       = Inr [''acc_seg'' \<mapsto> 5, ''loss_edl'' \<mapsto> 13, ''mean_ev_sum'' \<mapsto> 7,
              ''mean_jacobian_logdet'' \<mapsto> 3]
   \<and> losses example_ext
        (example_sampled_edl_head\<lparr>loss_decode := ModuleList [example_edl_loss, example_edl_loss]\<rparr>)
        example_x example_x 3
       = Inl NotImplementedError
   \<and> losses example_ext
        (example_sampled_edl_head\<lparr>loss_decode := ModuleList [example_loss, example_loss]\<rparr>)
        example_x example_x 3
       = Inr [''acc_seg'' \<mapsto> 5, ''loss_ce'' \<mapsto> 33]"
  by (simp add: example_sampled_edl_head_def example_head_def example_edl_loss_def
      example_loss_def example_sampler_def startswith_def losses_def example_ext_def
      sampled_seg_weight_def resized_logit_def)

section \<open>Properties of the evaluation loops\<close>

subsection \<open>The mutually exclusive modes\<close>

text \<open>
  C2, as stated, fails: with \<open>efficient_test\<close> and \<open>pre_eval\<close> both true, both entry
  points reject the call, but only after the warning has been issued and the directory
  \<^verbatim>\<open>.efficient_test\<close> has been made.
\<close>

theorem mode_conflict_creates_directory:
  "dirs empty_world = {}
   \<and> single_gpu_test example_model example_loader False None True True False empty_world
       = (Inl (AssertionError exclusive_msg),
          empty_world\<lparr>warnings := [deprecation_msg], dirs := {''.efficient_test''}\<rparr>)
   \<and> multi_gpu_test example_model example_loader None False True True False 0 1 [[]] empty_world
       = (Inl (AssertionError exclusive_msg),
          empty_world\<lparr>warnings := [deprecation_msg], dirs := {''.efficient_test''}\<rparr>)"
  by (simp add: single_gpu_test_def multi_gpu_test_def efficient_setup_def empty_world_def)

text \<open>
  C2, amended. If more than one of \<open>efficient_test\<close>, \<open>pre_eval\<close> and \<open>format_only\<close> is
  true, both entry points raise the assertion error with its message before
  \<^verbatim>\<open>model.eval()\<close> and before any batch is given to the model; the only effects are those
  of the first statement: with \<open>efficient_test\<close> the deprecation warning and the directory
  \<^verbatim>\<open>.efficient_test\<close>, and none without it.
\<close>

theorem mode_conflict_rejected:
  assumes "1 < count_list [efficient_test, pre_eval, format_only] True"
  shows "single_gpu_test m dl show_flag out_dir efficient_test pre_eval format_only w
           = (Inl (AssertionError exclusive_msg), efficient_setup efficient_test w)
         \<and> multi_gpu_test m dl tmpdir gpu_collect efficient_test pre_eval format_only
             rank world_size peers w
           = (Inl (AssertionError exclusive_msg), efficient_setup efficient_test w)
         \<and> model_calls (efficient_setup efficient_test w) = model_calls w
         \<and> eval_mode (efficient_setup efficient_test w) = eval_mode w
         \<and> dirs (efficient_setup efficient_test w)
             = (if efficient_test then insert ''.efficient_test'' (dirs w) else dirs w)"
proof -
  have c: "\<not> count_list [efficient_test, pre_eval, format_only] True \<le> 1"
    using assms by simp
  show ?thesis
    unfolding single_gpu_test_def multi_gpu_test_def Let_def
    by (simp only: c if_True not_False_eq_True simp_thms) (simp add: efficient_setup_def)
qed

theorem mode_conflict_rejected_witness:
  "1 < count_list [False, True, True] True
   \<and> single_gpu_test example_model example_loader False None False True True empty_world
       = (Inl (AssertionError exclusive_msg), empty_world)
   \<and> multi_gpu_test example_model example_loader None False False True True 0 1 [[]] empty_world
       = (Inl (AssertionError exclusive_msg), empty_world)"
proof -
  have h: "1 < count_list [False, True, True] True"
    by simp
  show ?thesis
    using h mode_conflict_rejected[OF h, where m = example_model and dl = example_loader
        and show_flag = False and out_dir = None and tmpdir = None and gpu_collect = False
        and rank = 0 and world_size = 1 and peers = "[[]]" and w = empty_world]
    by (simp add: efficient_setup_def)
qed

subsection \<open>The batch size\<close>

text \<open>
  C9. The claim is that both entry points reject a loader whose batch size is greater
  than one. On the loader that delivers the two samples in one step,
  \<^verbatim>\<open>single_gpu_test\<close> raises its assertion error before any inference, but
  \<^verbatim>\<open>multi_gpu_test\<close>, which has no such check, gives the batch to the model and returns
  the results.
\<close>

theorem multi_gpu_test_accepts_batch_size_two:
  "batch_size example_loader2 = 2
   \<and> single_gpu_test example_model example_loader2 False None False False False empty_world
       = (Inl (AssertionError batch_size_msg), empty_world\<lparr>eval_mode := True\<rparr>)
   \<and> multi_gpu_test example_model example_loader2 None False False False False 0 1 [[]] empty_world
       = (Inr [Prediction 100, Prediction 101],
          empty_world\<lparr>eval_mode := True, model_calls := [[0, 1]], progress := 2\<rparr>)"
  by (simp add: single_gpu_test_def multi_gpu_test_def efficient_setup_def empty_world_def
      example_loader2_def example_model_def example_dataset_def multi_gpu_batch_def
      collect_batch_def collect_results_def upt_rec)

subsection \<open>Showing without an output directory\<close>

text \<open>
  C10. Let the modes be compatible, the batch size 1, and let the first batch have an
  index, at least one image with its meta, and a prediction. If \<^verbatim>\<open>single_gpu_test\<close> is
  called with \<open>show\<close> true and no output directory (\<open>None\<close>, or the empty string), then
  on the first batch \<open>out_file\<close> is \<open>None\<close> and the call raises \<^verbatim>\<open>TypeError\<close> when it
  slices \<open>out_file\<close> for the ground-truth overlay, after the one call of
  \<^verbatim>\<open>show_result\<close> for the prediction; so a call with \<open>show\<close> true that returns has an
  output directory.
\<close>

theorem show_without_out_dir_raises:
  assumes flags: "count_list [efficient_test, pre_eval, format_only] True \<le> 1"
    and bs: "batch_size dl = 1"
    and first: "batches dl = b # rest"
    and idx: "batch_indices b \<noteq> []"
    and ims: "imgs b \<noteq> []" and same: "length (imgs b) = length (img_metas b)"
    and res: "fst (infer m b) \<noteq> []"
  shows "(\<not> truthy out_dir \<longrightarrow>
            single_gpu_test m dl True out_dir efficient_test pre_eval format_only w =
              (Inl TypeError,
               (efficient_setup efficient_test w)
                 \<lparr>eval_mode := True,
                  model_calls := model_calls w @ [batch_indices b],
                  shown := shown w @ [ShowResult (hd (fst (infer m b))) True None]\<rparr>))
         \<and> ((\<exists>results. fst (single_gpu_test m dl True out_dir efficient_test pre_eval
                               format_only w) = Inr results)
              \<longrightarrow> truthy out_dir)"
proof -
  obtain i0 irest where i: "batch_indices b = i0 # irest"
    using idx by (cases "batch_indices b") auto
  obtain result seg_logit where inf: "infer m b = (result, seg_logit)"
    by (cases "infer m b") auto
  obtain r0 rs where r: "result = r0 # rs"
    using res inf by (cases result) auto
  obtain im ims' where im: "imgs b = im # ims'"
    using ims by (cases "imgs b") auto
  obtain me mes where me: "img_metas b = me # mes"
    using same im by (cases "img_metas b") auto
  have raise: "single_gpu_test m dl True out_dir efficient_test pre_eval format_only w =
              (Inl TypeError,
               (efficient_setup efficient_test w)
                 \<lparr>eval_mode := True,
                  model_calls := model_calls w @ [batch_indices b],
                  shown := shown w @ [ShowResult (hd (fst (infer m b))) True None]\<rparr>)"
    if nd: "\<not> truthy out_dir"
    using flags bs first same nd
    by (simp add: single_gpu_test_def single_gpu_batch_def visualize_image_def i inf r im me
        efficient_setup_def Let_def)
  show ?thesis
    using raise by (cases "truthy out_dir") auto
qed

theorem show_without_out_dir_raises_witness:
  "count_list [False, False, False] True \<le> 1
   \<and> batch_size example_loader = 1
   \<and> batches example_loader = example_batch 0 # [example_batch 1]
   \<and> batch_indices (example_batch 0) \<noteq> []
   \<and> imgs (example_batch 0) \<noteq> []
   \<and> length (imgs (example_batch 0)) = length (img_metas (example_batch 0))
   \<and> fst (infer example_model (example_batch 0)) \<noteq> []
   \<and> single_gpu_test example_model example_loader True None False False False empty_world
       = (Inl TypeError,
          empty_world\<lparr>eval_mode := True, model_calls := [[0]],
                       shown := [ShowResult 100 True None]\<rparr>)
   \<and> fst (single_gpu_test example_model example_loader True (Some ''out'') False False False
            empty_world)
       = Inr [Prediction 100, Prediction 101]
   \<and> shown (snd (single_gpu_test example_model example_loader True (Some ''out'') False False False
            empty_world))
       = [ShowResult 100 True (Some ''out/a.png''), ShowResult 200 True (Some ''out/a_gt.png''),
          ShowResult 101 True (Some ''out/a.png''), ShowResult 201 True (Some ''out/a_gt.png'')]"
proof -
  have flags: "count_list [False, False, False] True \<le> 1"
    by simp
  have bs: "batch_size example_loader = 1"
    and first: "batches example_loader = example_batch 0 # [example_batch 1]"
    by (simp_all add: example_loader_def)
  have idx: "batch_indices (example_batch 0) \<noteq> []"
    and ims: "imgs (example_batch 0) \<noteq> []"
    and same: "length (imgs (example_batch 0)) = length (img_metas (example_batch 0))"
    by (simp_all add: example_batch_def)
  have res: "fst (infer example_model (example_batch 0)) \<noteq> []"
    by (simp add: example_model_def example_batch_def)
  have nd: "\<not> truthy None"
    by (simp add: truthy_def)
  have raised: "single_gpu_test example_model example_loader True None False False False empty_world
       = (Inl TypeError,
          empty_world\<lparr>eval_mode := True, model_calls := [[0]],
                       shown := [ShowResult 100 True None]\<rparr>)"
    using show_without_out_dir_raises[OF flags bs first idx ims same res, of None empty_world] nd
    by (simp add: efficient_setup_def empty_world_def example_model_def example_batch_def)
  have run: "single_gpu_test example_model example_loader True (Some ''out'') False False False
            empty_world
       = (Inr [Prediction 100, Prediction 101],
          empty_world\<lparr>eval_mode := True, model_calls := [[0], [1]],
            shown := [ShowResult 100 True (Some ''out/a.png''), ShowResult 200 True (Some ''out/a_gt.png''),
              ShowResult 101 True (Some ''out/a.png''), ShowResult 201 True (Some ''out/a_gt.png'')],
            plots := [''out/a_sm_conf.png'', ''out/a_edge_mask.png'', ''out/a_sm_conf.png'',
              ''out/a_edge_mask.png''],
            progress := 2\<rparr>)"
    by (simp add: single_gpu_test_def single_gpu_batch_def visualize_image_def collect_batch_def
        efficient_setup_def empty_world_def example_loader_def example_batch_def example_model_def
        example_dataset_def truthy_def osp_join_def tagged_def startswith_def Let_def)
  show ?thesis
    using flags bs first idx ims same res raised run by simp
qed

subsection \<open>The aggregation of the partial results\<close>







end
